theory Spec2Isabelle
  imports Main "HOL-Library.Sublist"
begin

section \<open>Data model of the Mergington High School API (src/app.py)\<close>

text \<open>
  One entry of the in-memory activity database: the four keys of each inner dictionary
  of the global \<^verbatim>\<open>activities\<close>. Python integers are unbounded, hence \<open>int\<close>; the
  participants are a Python list, hence an ordered list that may in principle hold
  duplicates.
\<close>

record activity =
  description :: string
  schedule :: string
  max_participants :: int
  participants :: "string list"

text \<open>
  The two mutable module globals. \<^verbatim>\<open>activities\<close> is a dictionary from activity name to
  its record, \<^verbatim>\<open>ADMIN_SESSIONS\<close> a dictionary from token to the ISO timestamp string of
  its expiry.
\<close>

record state =
  activities :: "string \<rightharpoonup> activity"
  ADMIN_SESSIONS :: "string \<rightharpoonup> string"

text \<open>
  \<^verbatim>\<open>HTTPException(status_code, detail)\<close>, and the JSON bodies the handlers return:
  \<^verbatim>\<open>{"token": t, "expires_in_hours": n}\<close>, \<^verbatim>\<open>{"detail": d}\<close> and \<^verbatim>\<open>{"message": m}\<close>.
\<close>

datatype http_exception = HTTPException nat string

datatype response = TokenBody string int | DetailBody string | MessageBody string

text \<open>
  A handler either raises or returns; the globals survive a raise, so the state is
  returned in both cases.
\<close>

type_synonym outcome = "(http_exception + response) \<times> state"

text \<open>
  A point in time, as naive UTC microseconds. The standard-library conversions
  \<^verbatim>\<open>datetime.isoformat\<close> and \<^verbatim>\<open>datetime.fromisoformat\<close> are not part of the repository;
  the functions below take them as parameters (\<open>None\<close> stands for the \<^verbatim>\<open>ValueError\<close> of
  \<^verbatim>\<open>fromisoformat\<close>), as they take the clock reading \<^verbatim>\<open>datetime.utcnow()\<close> and the
  value of \<^verbatim>\<open>uuid.uuid4().hex\<close>.
\<close>

type_synonym datetime = int

definition timedelta_hours :: "int \<Rightarrow> int" where
  "timedelta_hours h = h * 3600 * 1000000"

text \<open>One teacher entry of the credentials file, and the loaded file as a whole.\<close>

type_synonym teacher = "string \<rightharpoonup> string"

type_synonym teacher_creds = "string \<rightharpoonup> teacher list"

section \<open>Seed data\<close>

definition seed_activities :: "(string \<times> activity) list" where
  "seed_activities =
    [(''Chess Club'',
        \<lparr>description = ''Learn strategies and compete in chess tournaments'',
         schedule = ''Fridays, 3:30 PM - 5:00 PM'',
         max_participants = 12,
         participants = [''michael@mergington.edu'', ''daniel@mergington.edu'']\<rparr>),
     (''Programming Class'',
        \<lparr>description = ''Learn programming fundamentals and build software projects'',
         schedule = ''Tuesdays and Thursdays, 3:30 PM - 4:30 PM'',
         max_participants = 20,
         participants = [''emma@mergington.edu'', ''sophia@mergington.edu'']\<rparr>),
     (''Gym Class'',
        \<lparr>description = ''Physical education and sports activities'',
         schedule = ''Mondays, Wednesdays, Fridays, 2:00 PM - 3:00 PM'',
         max_participants = 30,
         participants = [''john@mergington.edu'', ''olivia@mergington.edu'']\<rparr>),
     (''Soccer Team'',
        \<lparr>description = ''Join the school soccer team and compete in matches'',
         schedule = ''Tuesdays and Thursdays, 4:00 PM - 5:30 PM'',
         max_participants = 22,
         participants = [''liam@mergington.edu'', ''noah@mergington.edu'']\<rparr>),
     (''Basketball Team'',
        \<lparr>description = ''Practice and play basketball with the school team'',
         schedule = ''Wednesdays and Fridays, 3:30 PM - 5:00 PM'',
         max_participants = 15,
         participants = [''ava@mergington.edu'', ''mia@mergington.edu'']\<rparr>),
     (''Art Club'',
        \<lparr>description = ''Explore your creativity through painting and drawing'',
         schedule = ''Thursdays, 3:30 PM - 5:00 PM'',
         max_participants = 15,
         participants = [''amelia@mergington.edu'', ''harper@mergington.edu'']\<rparr>),
     (''Drama Club'',
        \<lparr>description = ''Act, direct, and produce plays and performances'',
         schedule = ''Mondays and Wednesdays, 4:00 PM - 5:30 PM'',
         max_participants = 20,
         participants = [''ella@mergington.edu'', ''scarlett@mergington.edu'']\<rparr>),
     (''Math Club'',
        \<lparr>description = ''Solve challenging problems and participate in math competitions'',
         schedule = ''Tuesdays, 3:30 PM - 4:30 PM'',
         max_participants = 10,
         participants = [''james@mergington.edu'', ''benjamin@mergington.edu'']\<rparr>),
     (''Debate Team'',
        \<lparr>description = ''Develop public speaking and argumentation skills'',
         schedule = ''Fridays, 4:00 PM - 5:30 PM'',
         max_participants = 12,
         participants = [''charlotte@mergington.edu'', ''henry@mergington.edu'']\<rparr>)]"

text \<open>The globals as they stand once the module has been imported.\<close>

definition initial_state :: state where
  "initial_state = \<lparr>activities = map_of seed_activities, ADMIN_SESSIONS = Map.empty\<rparr>"

section \<open>Credential loading (module level, lines 85 to 94)\<close>

text \<open>
  A value as \<^verbatim>\<open>json.load\<close> returns it: \<^verbatim>\<open>None\<close>, a boolean, a number, a string, a list
  or a dictionary. Whatever the file parses to becomes \<^verbatim>\<open>TEACHER_CREDS\<close>; the loader
  looks at no part of it. Numbers are kept as integers, their value playing no role here.
\<close>

datatype json =
  JNull
| JBool bool
| JNumber int
| JString string
| JArray "json list"
| JObject "(string \<times> json) list"

text \<open>The exceptions the loader can meet; each is a subclass of \<^verbatim>\<open>Exception\<close>.\<close>

datatype py_exception = PermissionError | FileNotFoundError | JSONDecodeError

text \<open>
  What the loader can find at \<^verbatim>\<open>teacher_credentials.json\<close>: no file (\<^verbatim>\<open>stat\<close> fails
  with \<^verbatim>\<open>ENOENT\<close>); a path that may not be examined (\<^verbatim>\<open>stat\<close> fails with \<^verbatim>\<open>EACCES\<close>,
  as for a symbolic link into a directory the process may not search); a file that
  \<^verbatim>\<open>stat\<close> finds and \<^verbatim>\<open>open\<close> refuses; or a file with some text in it.
\<close>

datatype creds_file = Missing | StatDenied | Unreadable | Readable string

text \<open>The initial value of the global, \<^verbatim>\<open>{"teachers": []}\<close>.\<close>

definition DEFAULT_TEACHER_CREDS :: json where
  "DEFAULT_TEACHER_CREDS = JObject [(''teachers'', JArray [])]"

text \<open>The same value as \<^verbatim>\<open>admin_login\<close> reads it, a dictionary of teacher lists.\<close>

definition EMPTY_CREDS :: teacher_creds where
  "EMPTY_CREDS = [''teachers'' \<mapsto> []]"

text \<open>
  \<^verbatim>\<open>_creds_file.exists()\<close> on line 88. The library's \<^verbatim>\<open>Path.exists\<close> answers false when
  \<^verbatim>\<open>stat\<close> fails because there is no such file, and raises again every other error of
  \<^verbatim>\<open>stat\<close>, \<^verbatim>\<open>PermissionError\<close> among them.
\<close>

fun path_exists :: "creds_file \<Rightarrow> py_exception + bool" where
  "path_exists Missing = Inr False"
| "path_exists StatDenied = Inl PermissionError"
| "path_exists Unreadable = Inr True"
| "path_exists (Readable s) = Inr True"

text \<open>\<^verbatim>\<open>open(_creds_file, "r")\<close> and the reading of the text.\<close>

fun open_read :: "creds_file \<Rightarrow> py_exception + string" where
  "open_read Missing = Inl FileNotFoundError"
| "open_read StatDenied = Inl PermissionError"
| "open_read Unreadable = Inl PermissionError"
| "open_read (Readable s) = Inr s"

text \<open>
  The body of the \<^verbatim>\<open>try\<close> on lines 90 and 91: \<^verbatim>\<open>open\<close>, then \<^verbatim>\<open>json.load\<close>. The parser
  is a parameter; it raises or returns a value of any shape.
\<close>

definition try_load ::
  "(string \<Rightarrow> py_exception + json) \<Rightarrow> creds_file \<Rightarrow> py_exception + json" where
  "try_load json_load f =
     (case open_read f of
        Inl e \<Rightarrow> Inl e
      | Inr content \<Rightarrow> json_load content)"

text \<open>
  Lines 87 to 94: the value of \<^verbatim>\<open>TEACHER_CREDS\<close> after the import, or the exception the
  import dies of. The test \<^verbatim>\<open>exists()\<close> stands outside the \<^verbatim>\<open>try\<close>, so what it raises
  is not caught; \<^verbatim>\<open>except Exception\<close> catches whatever the body raises.
\<close>

definition load_TEACHER_CREDS ::
  "(string \<Rightarrow> py_exception + json) \<Rightarrow> creds_file \<Rightarrow> py_exception + json" where
  "load_TEACHER_CREDS json_load f =
     (case path_exists f of
        Inl e \<Rightarrow> Inl e
      | Inr found \<Rightarrow>
          if found then
            (case try_load json_load f of
               Inr loaded \<Rightarrow> Inr loaded
             | Inl e \<Rightarrow> Inr DEFAULT_TEACHER_CREDS)
          else Inr DEFAULT_TEACHER_CREDS)"

section \<open>Session manager\<close>

text \<open>
  \<^verbatim>\<open>s.split(" ", 1)\<close>: at most one split, at the first space; a string without a space
  comes back whole.
\<close>

definition split_space_1 :: "string \<Rightarrow> string list" where
  "split_space_1 s =
     (if CHR '' '' \<in> set s
      then [takeWhile (\<lambda>c. c \<noteq> CHR '' '') s, tl (dropWhile (\<lambda>c. c \<noteq> CHR '' '') s)]
      else [s])"

text \<open>
  The prefix stripping shared by \<^verbatim>\<open>_validate_admin_token\<close> and \<^verbatim>\<open>admin_logout\<close>:
  \<^verbatim>\<open>token.split(" ", 1)[1] if token.startswith("Bearer ") else token\<close>.
\<close>

definition strip_bearer :: "string \<Rightarrow> string" where
  "strip_bearer token =
     (if prefix ''Bearer '' token then split_space_1 token ! 1 else token)"

text \<open>\<^verbatim>\<open>_create_admin_token\<close>: returns the token and the updated session table.\<close>

definition create_admin_token ::
  "(datetime \<Rightarrow> string) \<Rightarrow> datetime \<Rightarrow> string \<Rightarrow> (string \<rightharpoonup> string)
     \<Rightarrow> string \<times> (string \<rightharpoonup> string)" where
  "create_admin_token isoformat utcnow uuid4_hex sessions =
     (let token = uuid4_hex;
          expiry = utcnow + timedelta_hours 8
      in (token, sessions(token \<mapsto> isoformat expiry)))"

text \<open>
  \<^verbatim>\<open>_validate_admin_token\<close>: the verdict and the session table afterwards. The argument
  is \<^verbatim>\<open>Optional[str]\<close>; \<^verbatim>\<open>not token\<close> holds for \<^verbatim>\<open>None\<close> and for the empty string, and
  \<^verbatim>\<open>not expiry_iso\<close> for a missing entry and for an empty one.
\<close>

definition validate_admin_token ::
  "(string \<Rightarrow> datetime option) \<Rightarrow> datetime \<Rightarrow> (string \<rightharpoonup> string) \<Rightarrow> string option
     \<Rightarrow> bool \<times> (string \<rightharpoonup> string)" where
  "validate_admin_token fromisoformat utcnow sessions token =
     (case token of
        None \<Rightarrow> (False, sessions)
      | Some t0 \<Rightarrow>
          if t0 = [] then (False, sessions)
          else
            let t = strip_bearer t0 in
            (case sessions t of
               None \<Rightarrow> (False, sessions)
             | Some expiry_iso \<Rightarrow>
                 if expiry_iso = [] then (False, sessions)
                 else
                   (case fromisoformat expiry_iso of
                      None \<Rightarrow> (False, sessions)
                    | Some expiry \<Rightarrow>
                        if utcnow > expiry then (False, sessions(t := None))
                        else (True, sessions))))"

text \<open>
  \<^verbatim>\<open>require_admin\<close>: validates \<^verbatim>\<open>authorization or ""\<close> and raises 401 on a refusal.
\<close>

definition require_admin ::
  "(string \<Rightarrow> datetime option) \<Rightarrow> datetime \<Rightarrow> (string \<rightharpoonup> string) \<Rightarrow> string option
     \<Rightarrow> (http_exception + unit) \<times> (string \<rightharpoonup> string)" where
  "require_admin fromisoformat utcnow sessions authorization =
     (let arg = (case authorization of None \<Rightarrow> [] | Some h \<Rightarrow> if h = [] then [] else h);
          (ok, sessions') = validate_admin_token fromisoformat utcnow sessions (Some arg)
      in if \<not> ok then (Inl (HTTPException 401 ''Admin authentication required''), sessions')
         else (Inr (), sessions'))"

section \<open>Endpoints\<close>

text \<open>
  The \<^verbatim>\<open>for\<close> loop of \<^verbatim>\<open>admin_login\<close> over \<^verbatim>\<open>TEACHER_CREDS.get("teachers", [])\<close>, with
  its early return and the \<^verbatim>\<open>raise\<close> that follows it. \<^verbatim>\<open>username\<close> and \<^verbatim>\<open>password\<close>
  are the results of \<^verbatim>\<open>credentials.get\<close>, compared with those of \<^verbatim>\<open>t.get\<close>.
\<close>

fun login_scan ::
  "(datetime \<Rightarrow> string) \<Rightarrow> datetime \<Rightarrow> string \<Rightarrow> teacher list
     \<Rightarrow> string option \<Rightarrow> string option \<Rightarrow> state \<Rightarrow> outcome" where
  "login_scan isoformat utcnow uuid4_hex [] username password st =
     (Inl (HTTPException 401 ''Invalid credentials''), st)"
| "login_scan isoformat utcnow uuid4_hex (t # ts) username password st =
     (if t ''username'' = username \<and> t ''password'' = password then
        (let (token, sessions') =
               create_admin_token isoformat utcnow uuid4_hex (ADMIN_SESSIONS st)
         in (Inr (TokenBody token 8), st\<lparr>ADMIN_SESSIONS := sessions'\<rparr>))
      else login_scan isoformat utcnow uuid4_hex ts username password st)"

text \<open>
  The request body of \<^verbatim>\<open>admin_login\<close> and the teacher entries are dictionaries whose
  values are strings, as the credentials file and the data model have them; a key may be
  absent.
\<close>

text \<open>
  Python truth of an \<^verbatim>\<open>Optional[str]\<close>: \<^verbatim>\<open>not v\<close> holds for \<^verbatim>\<open>None\<close> (the key is absent
  and \<^verbatim>\<open>get\<close> gives \<^verbatim>\<open>None\<close>) and for the empty string.
\<close>

definition falsy :: "string option \<Rightarrow> bool" where
  "falsy v = (case v of None \<Rightarrow> True | Some s \<Rightarrow> s = [])"

definition admin_login ::
  "(datetime \<Rightarrow> string) \<Rightarrow> datetime \<Rightarrow> string \<Rightarrow> teacher_creds
     \<Rightarrow> state \<Rightarrow> (string \<rightharpoonup> string) \<Rightarrow> outcome" where
  "admin_login isoformat utcnow uuid4_hex TEACHER_CREDS st credentials =
     (let username = credentials ''username'';
          password = credentials ''password''
      in if falsy username \<or> falsy password then
           (Inl (HTTPException 400 ''username and password required''), st)
         else
           login_scan isoformat utcnow uuid4_hex
             (case TEACHER_CREDS ''teachers'' of None \<Rightarrow> [] | Some ts \<Rightarrow> ts)
             username password st)"

definition admin_logout :: "state \<Rightarrow> string option \<Rightarrow> outcome" where
  "admin_logout st authorization =
     (case authorization of
        None \<Rightarrow> (Inl (HTTPException 400 ''Authorization header required''), st)
      | Some h \<Rightarrow>
          if h = [] then (Inl (HTTPException 400 ''Authorization header required''), st)
          else
            (let token = strip_bearer h
             in (Inr (DetailBody ''logged out''),
                 st\<lparr>ADMIN_SESSIONS := (ADMIN_SESSIONS st)(token := None)\<rparr>)))"

definition signup_for_activity :: "state \<Rightarrow> string \<Rightarrow> string \<Rightarrow> outcome" where
  "signup_for_activity st activity_name email =
     (case activities st activity_name of
        None \<Rightarrow> (Inl (HTTPException 404 ''Activity not found''), st)
      | Some activity \<Rightarrow>
          if email \<in> set (participants activity) then
            (Inl (HTTPException 400 ''Student is already signed up''), st)
          else
            (Inr (MessageBody (''Signed up '' @ email @ '' for '' @ activity_name)),
             st\<lparr>activities := (activities st)(activity_name \<mapsto>
                   activity\<lparr>participants := participants activity @ [email]\<rparr>)\<rparr>))"

text \<open>
  \<^verbatim>\<open>unregister_from_activity\<close>. The dependency \<^verbatim>\<open>require_admin\<close> runs before the body;
  \<^verbatim>\<open>list.remove\<close> deletes the first occurrence, which is \<open>remove1\<close>.
\<close>

definition unregister_from_activity ::
  "(string \<Rightarrow> datetime option) \<Rightarrow> datetime \<Rightarrow> state \<Rightarrow> string \<Rightarrow> string \<Rightarrow> string option
     \<Rightarrow> outcome" where
  "unregister_from_activity fromisoformat utcnow st activity_name email authorization =
     (case require_admin fromisoformat utcnow (ADMIN_SESSIONS st) authorization of
        (Inl e, sessions') \<Rightarrow> (Inl e, st\<lparr>ADMIN_SESSIONS := sessions'\<rparr>)
      | (Inr u, sessions') \<Rightarrow>
          (let st1 = st\<lparr>ADMIN_SESSIONS := sessions'\<rparr> in
           case activities st1 activity_name of
             None \<Rightarrow> (Inl (HTTPException 404 ''Activity not found''), st1)
           | Some activity \<Rightarrow>
               if email \<notin> set (participants activity) then
                 (Inl (HTTPException 400 ''Student is not signed up for this activity''), st1)
               else
                 (Inr (MessageBody (''Unregistered '' @ email @ '' from '' @ activity_name)),
                  st1\<lparr>activities := (activities st1)(activity_name \<mapsto>
                        activity\<lparr>participants := remove1 email (participants activity)\<rparr>)\<rparr>)))"

section \<open>Reachable states\<close>

text \<open>
  The states the process can be in: the globals after import, and whatever any of the
  four mutating or session endpoints leaves behind, whether the call returned or raised,
  with any arguments, clock reading and library behaviour.
\<close>

inductive reachable :: "state \<Rightarrow> bool" where
  reachable_init: "reachable initial_state"
| reachable_signup:
    "reachable st \<Longrightarrow> reachable (snd (signup_for_activity st activity_name email))"
| reachable_unregister:
    "reachable st \<Longrightarrow>
     reachable (snd (unregister_from_activity fromisoformat utcnow st activity_name email
                       authorization))"
| reachable_login:
    "reachable st \<Longrightarrow>
     reachable (snd (admin_login isoformat utcnow uuid4_hex TEACHER_CREDS st credentials))"
| reachable_logout:
    "reachable st \<Longrightarrow> reachable (snd (admin_logout st authorization))"

text \<open>The roster of an activity in a state; empty for a name that is not a key.\<close>

definition roster :: "state \<Rightarrow> string \<Rightarrow> string list" where
  "roster st activity_name =
     (case activities st activity_name of None \<Rightarrow> [] | Some a \<Rightarrow> participants a)"

section \<open>Concrete inputs for the examples\<close>

text \<open>
  Stand-ins for the two library conversions, right at the instants the examples use:
  the epoch and eight hours after it.
\<close>

definition example_isoformat :: "datetime \<Rightarrow> string" where
  "example_isoformat t =
     (if t = 28800000000 then ''1970-01-01T08:00:00'' else ''1970-01-01T00:00:00'')"

definition example_fromisoformat :: "string \<Rightarrow> datetime option" where
  "example_fromisoformat s =
     (if s = ''1970-01-01T08:00:00'' then Some 28800000000
      else if s = ''1970-01-01T00:00:00'' then Some 0
      else None)"

definition example_creds :: teacher_creds where
  "example_creds =
     [''teachers'' \<mapsto> [[''username'' \<mapsto> ''teacher1'', ''password'' \<mapsto> ''pw1'']]]"

definition example_token :: string where
  "example_token = ''0123456789abcdef0123456789abcdef''"

text \<open>The state after one login at the epoch: one session, good for eight hours.\<close>

definition logged_in_state :: state where
  "logged_in_state =
     initial_state\<lparr>ADMIN_SESSIONS := [example_token \<mapsto> ''1970-01-01T08:00:00'']\<rparr>"

section \<open>Vocabulary of the specification\<close>

text \<open>
  The expiry the session table records for a token, as the validation reads it: none when
  the token is not a key, when the stored string is empty, or when \<^verbatim>\<open>fromisoformat\<close>
  rejects it.
\<close>

definition recorded_expiry ::
  "(string \<Rightarrow> datetime option) \<Rightarrow> (string \<rightharpoonup> string) \<Rightarrow> string \<Rightarrow> datetime option" where
  "recorded_expiry fromisoformat sessions t =
     (case sessions t of
        None \<Rightarrow> None
      | Some expiry_iso \<Rightarrow> if expiry_iso = [] then None else fromisoformat expiry_iso)"

text \<open>
  The frame of a mutation of one activity: the session table, every other activity and
  the three descriptive fields of the named activity are as before.
\<close>

definition only_roster_changed :: "state \<Rightarrow> state \<Rightarrow> string \<Rightarrow> bool" where
  "only_roster_changed st st' activity_name =
     (ADMIN_SESSIONS st' = ADMIN_SESSIONS st
      \<and> (\<forall>other. other \<noteq> activity_name \<longrightarrow> activities st' other = activities st other)
      \<and> (\<exists>a a'. activities st activity_name = Some a
            \<and> activities st' activity_name = Some a'
            \<and> description a' = description a
            \<and> schedule a' = schedule a
            \<and> max_participants a' = max_participants a))"

text \<open>
  The teacher entries the login scans: \<^verbatim>\<open>TEACHER_CREDS.get("teachers", [])\<close>.
\<close>

definition loaded_teachers :: "teacher_creds \<Rightarrow> teacher list" where
  "loaded_teachers TEACHER_CREDS =
     (case TEACHER_CREDS ''teachers'' of None \<Rightarrow> [] | Some ts \<Rightarrow> ts)"

text \<open>
  A stand-in for \<^verbatim>\<open>json.load\<close>, right on the three texts the examples use: the empty
  object, \<^verbatim>\<open>null\<close>, and an opening brace alone, which is no JSON text.
\<close>

definition example_json_load :: "string \<Rightarrow> py_exception + json" where
  "example_json_load s =
     (if s = ''{}'' then Inr (JObject [])
      else if s = ''null'' then Inr JNull
      else Inl JSONDecodeError)"

text \<open>Two request bodies: one whose username is the empty string, one well formed.\<close>

definition empty_username_body :: "string \<rightharpoonup> string" where
  "empty_username_body = map_of [(''username'', []), (''password'', ''pw1'')]"

definition teacher1_body :: "string \<rightharpoonup> string" where
  "teacher1_body = map_of [(''username'', ''teacher1''), (''password'', ''pw1'')]"

text \<open>
  A run of signups for one activity, one email after the other, whatever each call
  answers.
\<close>

fun signup_all :: "state \<Rightarrow> string \<Rightarrow> string list \<Rightarrow> state" where
  "signup_all st activity_name [] = st"
| "signup_all st activity_name (email # emails) =
     signup_all (snd (signup_for_activity st activity_name email)) activity_name emails"

text \<open>Nine students join the Math Club (capacity 10, two seeded participants).\<close>

definition overfull_state :: state where
  "overfull_state =
     signup_all initial_state ''Math Club''
       [''s1@mergington.edu'', ''s2@mergington.edu'', ''s3@mergington.edu'',
        ''s4@mergington.edu'', ''s5@mergington.edu'', ''s6@mergington.edu'',
        ''s7@mergington.edu'', ''s8@mergington.edu'', ''s9@mergington.edu'']"

section \<open>Auxiliary facts\<close>

lemma strip_bearer_prefixed: "strip_bearer (''Bearer '' @ t) = t"
  by (simp add: strip_bearer_def split_space_1_def)

lemma strip_bearer_drop: "prefix ''Bearer '' h \<Longrightarrow> strip_bearer h = drop 7 h"
proof -
  assume "prefix ''Bearer '' h"
  then obtain t where h: "h = ''Bearer '' @ t" by (auto simp: prefix_def)
  have "strip_bearer (''Bearer '' @ t) = t" by (rule strip_bearer_prefixed)
  moreover have "drop 7 (''Bearer '' @ t) = t" by simp
  ultimately show ?thesis unfolding h by simp
qed

lemma strip_bearer_raw: "\<not> prefix ''Bearer '' h \<Longrightarrow> strip_bearer h = h"
  by (simp add: strip_bearer_def)

lemma seed_chess_club:
  "activities initial_state ''Chess Club'' = Some
     \<lparr>description = ''Learn strategies and compete in chess tournaments'',
      schedule = ''Fridays, 3:30 PM - 5:00 PM'',
      max_participants = 12,
      participants = [''michael@mergington.edu'', ''daniel@mergington.edu'']\<rparr>"
  by (simp add: initial_state_def seed_activities_def)

lemma seed_no_knitting: "activities initial_state ''Knitting'' = None"
  by (simp add: initial_state_def seed_activities_def)

section \<open>Signup\<close>

text \<open>
  Claim C1. For every state, activity name and email, \<^verbatim>\<open>signup_for_activity\<close> raises 404
  when the name is not a key of the activity map; otherwise raises 400 when the email is
  already in that activity's participants; otherwise it returns the confirmation message
  and the only change is that the email now stands at the end of that activity's
  participants list. Both failures leave the state as it was.
\<close>

theorem signup_for_activity_cases:
  "(activities st n = None \<longrightarrow>
      signup_for_activity st n e = (Inl (HTTPException 404 ''Activity not found''), st))
   \<and> (\<forall>a. activities st n = Some a \<and> e \<in> set (participants a) \<longrightarrow>
      signup_for_activity st n e =
        (Inl (HTTPException 400 ''Student is already signed up''), st))
   \<and> (\<forall>a. activities st n = Some a \<and> e \<notin> set (participants a) \<longrightarrow>
      signup_for_activity st n e =
        (Inr (MessageBody (''Signed up '' @ e @ '' for '' @ n)),
         st\<lparr>activities := (activities st)(n \<mapsto> a\<lparr>participants := participants a @ [e]\<rparr>)\<rparr>)
      \<and> roster (snd (signup_for_activity st n e)) n = participants a @ [e])"
  by (simp add: signup_for_activity_def roster_def)

theorem signup_for_activity_cases_witness:
  "signup_for_activity initial_state ''Knitting'' ''new@mergington.edu''
     = (Inl (HTTPException 404 ''Activity not found''), initial_state)
   \<and> signup_for_activity initial_state ''Chess Club'' ''daniel@mergington.edu''
     = (Inl (HTTPException 400 ''Student is already signed up''), initial_state)
   \<and> fst (signup_for_activity initial_state ''Chess Club'' ''new@mergington.edu'')
     = Inr (MessageBody ''Signed up new@mergington.edu for Chess Club'')
   \<and> roster (snd (signup_for_activity initial_state ''Chess Club'' ''new@mergington.edu''))
       ''Chess Club''
     = [''michael@mergington.edu'', ''daniel@mergington.edu'', ''new@mergington.edu'']"
  using signup_for_activity_cases [of initial_state "''Knitting''" "''new@mergington.edu''"]
    signup_for_activity_cases [of initial_state "''Chess Club''" "''daniel@mergington.edu''"]
    signup_for_activity_cases [of initial_state "''Chess Club''" "''new@mergington.edu''"]
  by (simp add: seed_chess_club seed_no_knitting roster_def)

section \<open>Token validation\<close>

lemma validate_None: "validate_admin_token F now S None = (False, S)"
  by (simp add: validate_admin_token_def)

lemma validate_empty: "validate_admin_token F now S (Some []) = (False, S)"
  by (simp add: validate_admin_token_def)

lemma validate_nonempty:
  "h \<noteq> [] \<Longrightarrow> validate_admin_token F now S (Some h) =
     (case recorded_expiry F S (strip_bearer h) of
        None \<Rightarrow> (False, S)
      | Some x \<Rightarrow> if now > x then (False, S(strip_bearer h := None)) else (True, S))"
  by (simp add: validate_admin_token_def recorded_expiry_def Let_def split: option.splits)

lemma validate_True_unchanged:
  "fst (validate_admin_token F now S tok) \<Longrightarrow> snd (validate_admin_token F now S tok) = S"
  by (auto simp: validate_admin_token_def Let_def split: option.splits if_splits)

text \<open>
  Claim C4. \<^verbatim>\<open>_validate_admin_token\<close> treats a raw token and the same token behind
  \<^verbatim>\<open>"Bearer "\<close> alike (the prefix, seven characters, is stripped before the lookup). It
  answers false, leaving the table as it is, for a missing or empty header and for a token
  that is not a key of the session table. For a non-empty header whose token has a recorded
  expiry, it answers false and deletes exactly that token's entry when the expiry lies
  strictly before the clock reading, and answers true and leaves the table unchanged
  otherwise. The table changes in the expired case and in no other.
\<close>

theorem validate_admin_token_spec:
  "(t \<noteq> [] \<and> \<not> prefix ''Bearer '' t \<longrightarrow>
      validate_admin_token F now S (Some (''Bearer '' @ t)) = validate_admin_token F now S (Some t))
   \<and> (prefix ''Bearer '' h \<longrightarrow> strip_bearer h = drop 7 h)
   \<and> (\<not> prefix ''Bearer '' h \<longrightarrow> strip_bearer h = h)
   \<and> validate_admin_token F now S None = (False, S)
   \<and> validate_admin_token F now S (Some []) = (False, S)
   \<and> (S (strip_bearer h) = None \<longrightarrow> validate_admin_token F now S (Some h) = (False, S))
   \<and> (h \<noteq> [] \<longrightarrow> (\<forall>x. recorded_expiry F S (strip_bearer h) = Some x \<and> x < now \<longrightarrow>
         validate_admin_token F now S (Some h) = (False, S(strip_bearer h := None))))
   \<and> (h \<noteq> [] \<longrightarrow> (\<forall>x. recorded_expiry F S (strip_bearer h) = Some x \<and> now \<le> x \<longrightarrow>
         validate_admin_token F now S (Some h) = (True, S)))
   \<and> (snd (validate_admin_token F now S (Some h)) \<noteq> S \<longleftrightarrow>
         h \<noteq> [] \<and> (\<exists>x. recorded_expiry F S (strip_bearer h) = Some x \<and> x < now))"
proof (intro conjI impI allI)
  assume "t \<noteq> [] \<and> \<not> prefix ''Bearer '' t"
  then have t: "t \<noteq> []" and raw: "strip_bearer t = t"
    by (simp_all add: strip_bearer_raw)
  have b: "''Bearer '' @ t \<noteq> []" by simp
  show "validate_admin_token F now S (Some (''Bearer '' @ t)) = validate_admin_token F now S (Some t)"
    unfolding validate_nonempty [OF b] validate_nonempty [OF t] strip_bearer_prefixed raw ..
next
  assume "prefix ''Bearer '' h" then show "strip_bearer h = drop 7 h" by (rule strip_bearer_drop)
next
  assume "\<not> prefix ''Bearer '' h" then show "strip_bearer h = h" by (rule strip_bearer_raw)
next
  show "validate_admin_token F now S None = (False, S)" by (rule validate_None)
next
  show "validate_admin_token F now S (Some []) = (False, S)" by (rule validate_empty)
next
  assume "S (strip_bearer h) = None"
  then show "validate_admin_token F now S (Some h) = (False, S)"
    by (simp add: validate_admin_token_def)
next
  fix x assume "h \<noteq> []" "recorded_expiry F S (strip_bearer h) = Some x \<and> x < now"
  then show "validate_admin_token F now S (Some h) = (False, S(strip_bearer h := None))"
    by (simp add: validate_nonempty)
next
  fix x assume "h \<noteq> []" "recorded_expiry F S (strip_bearer h) = Some x \<and> now \<le> x"
  then show "validate_admin_token F now S (Some h) = (True, S)"
    by (simp add: validate_nonempty)
next
  show "snd (validate_admin_token F now S (Some h)) \<noteq> S \<longleftrightarrow>
         h \<noteq> [] \<and> (\<exists>x. recorded_expiry F S (strip_bearer h) = Some x \<and> x < now)"
  proof (cases "h = []")
    case True then show ?thesis by (simp add: validate_empty)
  next
    case False
    have neq: "S (strip_bearer h) = Some e \<Longrightarrow> S(strip_bearer h := None) \<noteq> S" for e
      by (metis fun_upd_same option.distinct(1))
    show ?thesis
    proof (cases "recorded_expiry F S (strip_bearer h)")
      case None with False show ?thesis by (simp add: validate_nonempty)
    next
      case (Some x)
      then obtain e where "S (strip_bearer h) = Some e"
        by (auto simp: recorded_expiry_def split: option.splits)
      with Some False neq show ?thesis by (simp add: validate_nonempty)
    qed
  qed
qed


theorem validate_admin_token_spec_witness:
  "validate_admin_token example_fromisoformat 1000 (ADMIN_SESSIONS logged_in_state)
       (Some (''Bearer '' @ example_token))
     = validate_admin_token example_fromisoformat 1000 (ADMIN_SESSIONS logged_in_state)
         (Some example_token)
   \<and> validate_admin_token example_fromisoformat 1000 (ADMIN_SESSIONS logged_in_state)
         (Some example_token)
     = (True, ADMIN_SESSIONS logged_in_state)
   \<and> validate_admin_token example_fromisoformat 28800000001 (ADMIN_SESSIONS logged_in_state)
         (Some example_token)
     = (False, Map.empty)
   \<and> validate_admin_token example_fromisoformat 1000 (ADMIN_SESSIONS logged_in_state)
         (Some ''garbage'')
     = (False, ADMIN_SESSIONS logged_in_state)"
  using
    validate_admin_token_spec [of example_token example_fromisoformat 1000
      "ADMIN_SESSIONS logged_in_state" example_token]
    validate_admin_token_spec [of example_token example_fromisoformat 28800000001
      "ADMIN_SESSIONS logged_in_state" example_token]
    validate_admin_token_spec [of example_token example_fromisoformat 1000
      "ADMIN_SESSIONS logged_in_state" "''garbage''"]
  by (simp add: logged_in_state_def example_token_def example_fromisoformat_def
        recorded_expiry_def strip_bearer_def)

section \<open>Unregister\<close>

lemma require_admin_eq:
  "require_admin F now S auth =
     (if fst (validate_admin_token F now S auth) then (Inr (), S)
      else (Inl (HTTPException 401 ''Admin authentication required''),
            snd (validate_admin_token F now S auth)))"
proof (cases "fst (validate_admin_token F now S auth)")
  case True
  have "auth \<noteq> None"
  proof
    assume "auth = None" with True show False by (simp add: validate_None)
  qed
  moreover have "auth \<noteq> Some []"
  proof
    assume "auth = Some []" with True show False by (simp add: validate_empty)
  qed
  ultimately obtain h where h: "auth = Some h" "h \<noteq> []" by (cases auth) auto
  from True validate_True_unchanged [OF True] h show ?thesis
    by (auto simp: require_admin_def split: prod.splits)
next
  case False
  show ?thesis
  proof (cases auth)
    case None
    then show ?thesis by (simp add: require_admin_def validate_None validate_empty)
  next
    case (Some h)
    with False show ?thesis
      by (cases "h = []") (auto simp: require_admin_def validate_empty split: prod.splits)
  qed
qed

lemma unregister_eq:
  "unregister_from_activity F now st n e auth =
     (if \<not> fst (validate_admin_token F now (ADMIN_SESSIONS st) auth) then
        (Inl (HTTPException 401 ''Admin authentication required''),
         st\<lparr>ADMIN_SESSIONS := snd (validate_admin_token F now (ADMIN_SESSIONS st) auth)\<rparr>)
      else
        (case activities st n of
           None \<Rightarrow> (Inl (HTTPException 404 ''Activity not found''), st)
         | Some a \<Rightarrow>
             if e \<notin> set (participants a) then
               (Inl (HTTPException 400 ''Student is not signed up for this activity''), st)
             else
               (Inr (MessageBody (''Unregistered '' @ e @ '' from '' @ n)),
                st\<lparr>activities := (activities st)(n \<mapsto>
                     a\<lparr>participants := remove1 e (participants a)\<rparr>)\<rparr>)))"
  by (simp add: unregister_from_activity_def require_admin_eq Let_def split: option.splits)

text \<open>
  Claim C2. \<^verbatim>\<open>unregister_from_activity\<close> validates the Authorization header first. A
  missing or empty header is never valid, and whenever validation refuses the call raises
  401 and no activity changes. When validation accepts, the call raises 404 for a name
  that is not a key of the activity map, raises 400 for an email that is not in that
  activity's participants, and otherwise returns the confirmation message, the only change
  being that the first occurrence of the email is removed from that activity's
  participants.
\<close>

theorem unregister_from_activity_cases:
  "(auth = None \<or> auth = Some [] \<longrightarrow>
      \<not> fst (validate_admin_token F now (ADMIN_SESSIONS st) auth))
   \<and> (\<not> fst (validate_admin_token F now (ADMIN_SESSIONS st) auth) \<longrightarrow>
      fst (unregister_from_activity F now st n e auth) =
        Inl (HTTPException 401 ''Admin authentication required'')
      \<and> activities (snd (unregister_from_activity F now st n e auth)) = activities st)
   \<and> (fst (validate_admin_token F now (ADMIN_SESSIONS st) auth) \<longrightarrow>
       (activities st n = None \<longrightarrow>
          unregister_from_activity F now st n e auth =
            (Inl (HTTPException 404 ''Activity not found''), st))
       \<and> (\<forall>a. activities st n = Some a \<and> e \<notin> set (participants a) \<longrightarrow>
          unregister_from_activity F now st n e auth =
            (Inl (HTTPException 400 ''Student is not signed up for this activity''), st))
       \<and> (\<forall>a. activities st n = Some a \<and> e \<in> set (participants a) \<longrightarrow>
          unregister_from_activity F now st n e auth =
            (Inr (MessageBody (''Unregistered '' @ e @ '' from '' @ n)),
             st\<lparr>activities := (activities st)(n \<mapsto>
                  a\<lparr>participants := remove1 e (participants a)\<rparr>)\<rparr>)
          \<and> roster (snd (unregister_from_activity F now st n e auth)) n
              = remove1 e (participants a)))"
  by (auto simp: unregister_eq roster_def validate_None validate_empty)

theorem unregister_from_activity_cases_witness:
  "fst (unregister_from_activity example_fromisoformat 1000 logged_in_state ''Chess Club''
          ''michael@mergington.edu'' None)
     = Inl (HTTPException 401 ''Admin authentication required'')
   \<and> fst (unregister_from_activity example_fromisoformat 1000 logged_in_state ''Chess Club''
          ''michael@mergington.edu'' (Some ''garbage''))
     = Inl (HTTPException 401 ''Admin authentication required'')
   \<and> unregister_from_activity example_fromisoformat 1000 logged_in_state ''Knitting''
          ''michael@mergington.edu'' (Some example_token)
     = (Inl (HTTPException 404 ''Activity not found''), logged_in_state)
   \<and> unregister_from_activity example_fromisoformat 1000 logged_in_state ''Chess Club''
          ''nobody@mergington.edu'' (Some example_token)
     = (Inl (HTTPException 400 ''Student is not signed up for this activity''), logged_in_state)
   \<and> fst (unregister_from_activity example_fromisoformat 1000 logged_in_state ''Chess Club''
          ''michael@mergington.edu'' (Some example_token))
     = Inr (MessageBody ''Unregistered michael@mergington.edu from Chess Club'')
   \<and> roster (snd (unregister_from_activity example_fromisoformat 1000 logged_in_state
          ''Chess Club'' ''michael@mergington.edu'' (Some example_token))) ''Chess Club''
     = [''daniel@mergington.edu'']"
proof -
  have ok: "fst (validate_admin_token example_fromisoformat 1000
                   (ADMIN_SESSIONS logged_in_state) (Some example_token))"
    by (simp add: validate_admin_token_def logged_in_state_def example_token_def
          example_fromisoformat_def strip_bearer_def)
  have bad: "\<not> fst (validate_admin_token example_fromisoformat 1000
                   (ADMIN_SESSIONS logged_in_state) (Some ''garbage''))"
    by (simp add: validate_admin_token_def logged_in_state_def example_token_def
          strip_bearer_def)
  have chess: "activities logged_in_state ''Chess Club'' = Some
     \<lparr>description = ''Learn strategies and compete in chess tournaments'',
      schedule = ''Fridays, 3:30 PM - 5:00 PM'',
      max_participants = 12,
      participants = [''michael@mergington.edu'', ''daniel@mergington.edu'']\<rparr>"
    by (simp add: logged_in_state_def seed_chess_club)
  have knit: "activities logged_in_state ''Knitting'' = None"
    by (simp add: logged_in_state_def seed_no_knitting)
  note inst = unregister_from_activity_cases [where F = example_fromisoformat
      and now = 1000 and st = logged_in_state]
  have c1: "fst (unregister_from_activity example_fromisoformat 1000 logged_in_state
          ''Chess Club'' ''michael@mergington.edu'' None)
     = Inl (HTTPException 401 ''Admin authentication required'')"
    using inst [where auth = None and n = "''Chess Club''" and e = "''michael@mergington.edu''"]
    by simp
  have c2: "fst (unregister_from_activity example_fromisoformat 1000 logged_in_state
          ''Chess Club'' ''michael@mergington.edu'' (Some ''garbage''))
     = Inl (HTTPException 401 ''Admin authentication required'')"
    using bad inst [where auth = "Some ''garbage''" and n = "''Chess Club''"
      and e = "''michael@mergington.edu''"]
    by simp
  have c3: "unregister_from_activity example_fromisoformat 1000 logged_in_state ''Knitting''
          ''michael@mergington.edu'' (Some example_token)
     = (Inl (HTTPException 404 ''Activity not found''), logged_in_state)"
    using ok knit inst [where auth = "Some example_token" and n = "''Knitting''"
      and e = "''michael@mergington.edu''"]
    by simp
  have c4: "unregister_from_activity example_fromisoformat 1000 logged_in_state
          ''Chess Club'' ''nobody@mergington.edu'' (Some example_token)
     = (Inl (HTTPException 400 ''Student is not signed up for this activity''),
        logged_in_state)"
    using ok chess inst [where auth = "Some example_token" and n = "''Chess Club''"
      and e = "''nobody@mergington.edu''"]
    by simp
  have c5: "fst (unregister_from_activity example_fromisoformat 1000 logged_in_state
          ''Chess Club'' ''michael@mergington.edu'' (Some example_token))
     = Inr (MessageBody ''Unregistered michael@mergington.edu from Chess Club'')
   \<and> roster (snd (unregister_from_activity example_fromisoformat 1000 logged_in_state
          ''Chess Club'' ''michael@mergington.edu'' (Some example_token))) ''Chess Club''
     = [''daniel@mergington.edu'']"
    using ok chess inst [where auth = "Some example_token" and n = "''Chess Club''"
      and e = "''michael@mergington.edu''"]
    by (simp add: roster_def)
  from c1 c2 c3 c4 c5 show ?thesis by blast
qed

section \<open>Error paths and frames\<close>

text \<open>
  Claim C6. Failed mutations are atomic. A signup that raises (404 or 400 are its only
  errors) leaves the whole state as it was; an unregister that raises (401, 404 or 400)
  leaves every activity record, and so every participants list, as it was.
\<close>

theorem failed_mutation_atomic:
  "(\<forall>err. fst (signup_for_activity st n e) = Inl err \<longrightarrow>
        snd (signup_for_activity st n e) = st)
   \<and> (\<forall>err. fst (unregister_from_activity F now st n e auth) = Inl err \<longrightarrow>
        activities (snd (unregister_from_activity F now st n e auth)) = activities st)"
  by (auto simp: unregister_eq signup_for_activity_def split: option.splits if_splits)

theorem failed_mutation_atomic_witness:
  "fst (signup_for_activity initial_state ''Chess Club'' ''daniel@mergington.edu'')
     = Inl (HTTPException 400 ''Student is already signed up'')
   \<and> snd (signup_for_activity initial_state ''Chess Club'' ''daniel@mergington.edu'')
     = initial_state
   \<and> fst (unregister_from_activity example_fromisoformat 28800000001 logged_in_state
          ''Chess Club'' ''michael@mergington.edu'' (Some example_token))
     = Inl (HTTPException 401 ''Admin authentication required'')
   \<and> activities (snd (unregister_from_activity example_fromisoformat 28800000001
          logged_in_state ''Chess Club'' ''michael@mergington.edu'' (Some example_token)))
     = activities logged_in_state"
proof -
  have s: "fst (signup_for_activity initial_state ''Chess Club'' ''daniel@mergington.edu'')
     = Inl (HTTPException 400 ''Student is already signed up'')"
    by (simp add: signup_for_activity_def seed_chess_club)
  have expired: "\<not> fst (validate_admin_token example_fromisoformat 28800000001
                   (ADMIN_SESSIONS logged_in_state) (Some example_token))"
    by (simp add: validate_admin_token_def logged_in_state_def example_token_def
          example_fromisoformat_def strip_bearer_def)
  have u: "fst (unregister_from_activity example_fromisoformat 28800000001 logged_in_state
          ''Chess Club'' ''michael@mergington.edu'' (Some example_token))
     = Inl (HTTPException 401 ''Admin authentication required'')"
    using expired by (simp add: unregister_eq)
  show ?thesis
    using s u
      failed_mutation_atomic [where st = initial_state and n = "''Chess Club''"
        and e = "''daniel@mergington.edu''"]
      failed_mutation_atomic [where st = logged_in_state and n = "''Chess Club''"
        and e = "''michael@mergington.edu''" and F = example_fromisoformat
        and now = 28800000001 and auth = "Some example_token"]
    by simp
qed

text \<open>
  Claim C10. A signup or an unregister that returns changes nothing but the participants
  list of the named activity: the session table is the same, every other activity is the
  same, and the named activity keeps its description, schedule and capacity.
\<close>

theorem successful_mutation_frame:
  "(\<forall>r. fst (signup_for_activity st n e) = Inr r \<longrightarrow>
        only_roster_changed st (snd (signup_for_activity st n e)) n)
   \<and> (\<forall>r. fst (unregister_from_activity F now st n e auth) = Inr r \<longrightarrow>
        only_roster_changed st (snd (unregister_from_activity F now st n e auth)) n)"
  by (auto simp: unregister_eq signup_for_activity_def only_roster_changed_def
           split: option.splits if_splits)



theorem successful_mutation_frame_witness:
  "fst (signup_for_activity initial_state ''Chess Club'' ''new@mergington.edu'')
     = Inr (MessageBody ''Signed up new@mergington.edu for Chess Club'')
   \<and> only_roster_changed initial_state
       (snd (signup_for_activity initial_state ''Chess Club'' ''new@mergington.edu''))
       ''Chess Club''
   \<and> fst (unregister_from_activity example_fromisoformat 1000 logged_in_state ''Chess Club''
          ''michael@mergington.edu'' (Some (''Bearer '' @ example_token)))
     = Inr (MessageBody ''Unregistered michael@mergington.edu from Chess Club'')
   \<and> only_roster_changed logged_in_state
       (snd (unregister_from_activity example_fromisoformat 1000 logged_in_state
          ''Chess Club'' ''michael@mergington.edu'' (Some (''Bearer '' @ example_token))))
       ''Chess Club''"
proof -
  have s: "fst (signup_for_activity initial_state ''Chess Club'' ''new@mergington.edu'')
     = Inr (MessageBody ''Signed up new@mergington.edu for Chess Club'')"
    by (simp add: signup_for_activity_def seed_chess_club)
  have ok: "fst (validate_admin_token example_fromisoformat 1000
                   (ADMIN_SESSIONS logged_in_state) (Some (''Bearer '' @ example_token)))"
    by (simp add: validate_admin_token_def logged_in_state_def example_token_def
          example_fromisoformat_def strip_bearer_def split_space_1_def)
  have u: "fst (unregister_from_activity example_fromisoformat 1000 logged_in_state
          ''Chess Club'' ''michael@mergington.edu'' (Some (''Bearer '' @ example_token)))
     = Inr (MessageBody ''Unregistered michael@mergington.edu from Chess Club'')"
    using ok by (simp add: unregister_eq logged_in_state_def seed_chess_club)
  show ?thesis
    using s u
      successful_mutation_frame [where st = initial_state and n = "''Chess Club''"
        and e = "''new@mergington.edu''"]
      successful_mutation_frame [where st = logged_in_state and n = "''Chess Club''"
        and e = "''michael@mergington.edu''" and F = example_fromisoformat
        and now = 1000 and auth = "Some (''Bearer '' @ example_token)"]
    by simp
qed

section \<open>Invariants of the reachable states\<close>

lemma login_scan_activities:
  "activities (snd (login_scan I now u ts usr pw st)) = activities st"
  by (induction ts) (simp_all add: create_admin_token_def Let_def)

lemma admin_login_activities:
  "activities (snd (admin_login I now u C st body)) = activities st"
  by (simp add: admin_login_def Let_def login_scan_activities)

lemma admin_logout_activities:
  "activities (snd (admin_logout st auth)) = activities st"
  by (simp add: admin_logout_def Let_def split: option.splits)

lemma seed_distinct:
  "activities initial_state n = Some a \<Longrightarrow> distinct (participants a)"
  by (auto simp: initial_state_def seed_activities_def split: if_splits)

lemma signup_distinct:
  assumes "\<And>m a. activities st m = Some a \<Longrightarrow> distinct (participants a)"
    and "activities (snd (signup_for_activity st n e)) m = Some a"
  shows "distinct (participants a)"
  using assms
  by (auto simp: signup_for_activity_def split: option.splits if_splits)

lemma unregister_distinct:
  assumes "\<And>m a. activities st m = Some a \<Longrightarrow> distinct (participants a)"
    and "activities (snd (unregister_from_activity F now st n e auth)) m = Some a"
  shows "distinct (participants a)"
  using assms
  by (auto simp: unregister_eq split: option.splits if_splits)

lemma reachable_distinct:
  "reachable st \<Longrightarrow> activities st m = Some a \<Longrightarrow> distinct (participants a)"
proof (induction arbitrary: m a rule: reachable.induct)
  case reachable_init
  then show ?case by (rule seed_distinct)
next
  case (reachable_signup st activity_name email)
  then show ?case using signup_distinct by blast
next
  case (reachable_unregister st fromisoformat utcnow activity_name email authorization)
  then show ?case using unregister_distinct by blast
next
  case (reachable_login st isoformat utcnow uuid4_hex TEACHER_CREDS credentials)
  then show ?case by (simp add: admin_login_activities)
next
  case (reachable_logout st authorization)
  then show ?case by (simp add: admin_logout_activities)
qed

lemma signup_roster:
  "roster (snd (signup_for_activity st n e)) m =
     (if m = n \<and> n \<in> dom (activities st) \<and> e \<notin> set (roster st n)
      then roster st n @ [e] else roster st m)"
  by (auto simp: signup_for_activity_def roster_def split: option.splits)

lemma unregister_roster:
  "roster (snd (unregister_from_activity F now st n e auth)) m =
     (if m = n \<and> fst (validate_admin_token F now (ADMIN_SESSIONS st) auth)
         \<and> e \<in> set (roster st n)
      then remove1 e (roster st n) else roster st m)"
  by (auto simp: unregister_eq roster_def split: option.splits)

lemma remove1_split_first:
  "e \<in> set xs \<Longrightarrow> \<exists>ys zs. xs = ys @ e # zs \<and> e \<notin> set ys \<and> remove1 e xs = ys @ zs"
proof (induction xs)
  case Nil
  then show ?case by simp
next
  case (Cons x xs)
  show ?case
  proof (cases "x = e")
    case True
    then have "x # xs = [] @ e # xs \<and> e \<notin> set [] \<and> remove1 e (x # xs) = [] @ xs" by simp
    then show ?thesis by blast
  next
    case False
    with Cons obtain ys zs where "xs = ys @ e # zs" "e \<notin> set ys" "remove1 e xs = ys @ zs"
      by auto
    with False have "x # xs = (x # ys) @ e # zs \<and> e \<notin> set (x # ys)
        \<and> remove1 e (x # xs) = (x # ys) @ zs" by auto
    then show ?thesis by blast
  qed
qed

lemma reachable_signup_all: "reachable st \<Longrightarrow> reachable (signup_all st n es)"
  by (induction es arbitrary: st) (simp_all add: reachable_signup)

lemma reachable_overfull: "reachable overfull_state"
  unfolding overfull_state_def by (rule reachable_signup_all) (rule reachable_init)

lemma signup_all_roster_fresh:
  "n \<in> dom (activities st) \<Longrightarrow> distinct es \<Longrightarrow> set es \<inter> set (roster st n) = {} \<Longrightarrow>
   roster (signup_all st n es) n = roster st n @ es"
proof (induction es arbitrary: st)
  case Nil
  then show ?case by simp
next
  case (Cons x xs)
  let ?st = "snd (signup_for_activity st n x)"
  from Cons.prems have r: "roster ?st n = roster st n @ [x]" by (simp add: signup_roster)
  have d: "n \<in> dom (activities ?st)" using Cons.prems(1)
    by (auto simp: signup_for_activity_def split: option.splits)
  have "roster (signup_all ?st n xs) n = roster ?st n @ xs"
    using Cons.prems d r by (intro Cons.IH) auto
  with r show ?case by simp
qed

lemma signup_keeps_max:
  "activities st n = Some a \<Longrightarrow>
   \<exists>a'. activities (snd (signup_for_activity st n e)) n = Some a'
        \<and> max_participants a' = max_participants a"
  by (simp add: signup_for_activity_def)

lemma signup_all_max:
  "activities st n = Some a \<Longrightarrow>
   \<exists>a'. activities (signup_all st n es) n = Some a' \<and> max_participants a' = max_participants a"
proof (induction es arbitrary: st a)
  case Nil
  then show ?case by simp
next
  case (Cons x xs)
  from signup_keeps_max [OF Cons.prems, of x] obtain b
    where b: "activities (snd (signup_for_activity st n x)) n = Some b"
      "max_participants b = max_participants a" by blast
  from Cons.IH [OF b(1)] b(2) show ?case by simp
qed

lemma seed_math_club:
  "activities initial_state ''Math Club'' = Some
     \<lparr>description = ''Solve challenging problems and participate in math competitions'',
      schedule = ''Tuesdays, 3:30 PM - 4:30 PM'',
      max_participants = 10,
      participants = [''james@mergington.edu'', ''benjamin@mergington.edu'']\<rparr>"
  by (simp add: initial_state_def seed_activities_def)

lemma overfull_math_club:
  "\<exists>a. activities overfull_state ''Math Club'' = Some a \<and> max_participants a = 10
       \<and> length (participants a) = 11
       \<and> ''s10@mergington.edu'' \<notin> set (participants a)"
proof -
  let ?es = "[''s1@mergington.edu'', ''s2@mergington.edu'', ''s3@mergington.edu'',
        ''s4@mergington.edu'', ''s5@mergington.edu'', ''s6@mergington.edu'',
        ''s7@mergington.edu'', ''s8@mergington.edu'', ''s9@mergington.edu'']"
  have r0: "roster initial_state ''Math Club'' = [''james@mergington.edu'', ''benjamin@mergington.edu'']"
    by (simp add: roster_def seed_math_club)
  have "roster (signup_all initial_state ''Math Club'' ?es) ''Math Club''
        = roster initial_state ''Math Club'' @ ?es"
    by (rule signup_all_roster_fresh) (simp_all add: r0 seed_math_club domI)
  then have r: "roster overfull_state ''Math Club'' = [''james@mergington.edu'', ''benjamin@mergington.edu''] @ ?es"
    by (simp add: overfull_state_def r0)
  obtain a where a: "activities overfull_state ''Math Club'' = Some a" "max_participants a = 10"
    using signup_all_max [OF seed_math_club, of ?es] by (auto simp: overfull_state_def)
  from r a have "participants a = [''james@mergington.edu'', ''benjamin@mergington.edu''] @ ?es"
    by (simp add: roster_def)
  with a show ?thesis by simp
qed


text \<open>
  Claim C9. In every reachable state each activity's participants are pairwise distinct.
  The order of a roster is the order of the signups: a signup leaves every roster as it
  was or puts its email at the end of the named activity's roster; an unregister leaves
  every roster as it was or takes the first (in a reachable state, the only) occurrence of
  its email out of the named roster, the emails before and after it keeping their order;
  login and logout touch no roster.
\<close>

theorem rosters_distinct_and_ordered:
  "(reachable st \<longrightarrow> (\<forall>m a. activities st m = Some a \<longrightarrow> distinct (participants a)))
   \<and> (\<forall>m. roster (snd (signup_for_activity st n e)) m = roster st m
          \<or> (m = n \<and> roster (snd (signup_for_activity st n e)) m = roster st m @ [e]))
   \<and> (\<forall>m. roster (snd (unregister_from_activity F now st n e auth)) m = roster st m
          \<or> (m = n \<and> (\<exists>ys zs. roster st m = ys @ e # zs \<and> e \<notin> set ys
                \<and> roster (snd (unregister_from_activity F now st n e auth)) m = ys @ zs)))
   \<and> (\<forall>m. roster (snd (admin_login I now' u C st body)) m = roster st m)
   \<and> (\<forall>m. roster (snd (admin_logout st auth')) m = roster st m)"
proof (intro conjI impI allI)
  fix m a assume "reachable st" "activities st m = Some a"
  then show "distinct (participants a)" by (rule reachable_distinct)
next
  fix m
  show "roster (snd (signup_for_activity st n e)) m = roster st m
          \<or> (m = n \<and> roster (snd (signup_for_activity st n e)) m = roster st m @ [e])"
    by (simp add: signup_roster)
next
  fix m
  show "roster (snd (unregister_from_activity F now st n e auth)) m = roster st m
          \<or> (m = n \<and> (\<exists>ys zs. roster st m = ys @ e # zs \<and> e \<notin> set ys
                \<and> roster (snd (unregister_from_activity F now st n e auth)) m = ys @ zs))"
    using remove1_split_first [of e "roster st n"]
    by (auto simp: unregister_roster)
next
  fix m show "roster (snd (admin_login I now' u C st body)) m = roster st m"
    by (simp add: roster_def admin_login_activities)
next
  fix m show "roster (snd (admin_logout st auth')) m = roster st m"
    by (simp add: roster_def admin_logout_activities)
qed

theorem rosters_distinct_and_ordered_witness:
  "reachable overfull_state \<and> distinct (roster overfull_state ''Math Club'')
   \<and> length (roster overfull_state ''Math Club'') = 11"
proof -
  from overfull_math_club obtain a where a: "activities overfull_state ''Math Club'' = Some a"
    "length (participants a) = 11" by blast
  from a reachable_overfull
    rosters_distinct_and_ordered [where st = overfull_state]
  show ?thesis by (simp add: roster_def)
qed

text \<open>
  Claim C3. A signup performs no capacity check. For every existing activity and every
  email that is not yet among its participants the signup returns the confirmation and
  appends the email, whatever the length of the list; the answer does not depend on
  \<^verbatim>\<open>max_participants\<close> at all. The bound is not an invariant: a state with more
  participants than \<^verbatim>\<open>max_participants\<close> is reachable from the seed.
\<close>

theorem signup_no_capacity_check:
  "(\<forall>a. activities st n = Some a \<and> e \<notin> set (participants a) \<longrightarrow>
       fst (signup_for_activity st n e) = Inr (MessageBody (''Signed up '' @ e @ '' for '' @ n))
       \<and> roster (snd (signup_for_activity st n e)) n = participants a @ [e])
   \<and> (\<forall>a k. activities st n = Some a \<longrightarrow>
       fst (signup_for_activity
              (st\<lparr>activities := (activities st)(n \<mapsto> a\<lparr>max_participants := k\<rparr>)\<rparr>) n e)
         = fst (signup_for_activity st n e))
   \<and> (\<exists>st'. reachable st' \<and>
          (\<exists>m a. activities st' m = Some a
                 \<and> max_participants a < int (length (participants a))))"
proof (intro conjI allI impI)
  fix a assume "activities st n = Some a \<and> e \<notin> set (participants a)"
  then show "fst (signup_for_activity st n e) = Inr (MessageBody (''Signed up '' @ e @ '' for '' @ n))"
    and "roster (snd (signup_for_activity st n e)) n = participants a @ [e]"
    by (simp_all add: signup_for_activity_def roster_def)
next
  fix a k assume "activities st n = Some a"
  then show "fst (signup_for_activity
              (st\<lparr>activities := (activities st)(n \<mapsto> a\<lparr>max_participants := k\<rparr>)\<rparr>) n e)
         = fst (signup_for_activity st n e)"
    by (simp add: signup_for_activity_def)
next
  from overfull_math_club obtain a where "activities overfull_state ''Math Club'' = Some a"
    "max_participants a < int (length (participants a))" by auto
  with reachable_overfull
  show "\<exists>st'. reachable st' \<and>
          (\<exists>m a. activities st' m = Some a
                 \<and> max_participants a < int (length (participants a)))"
    by blast
qed

theorem signup_no_capacity_check_witness:
  "length (roster overfull_state ''Math Club'') = 11
   \<and> fst (signup_for_activity overfull_state ''Math Club'' ''s10@mergington.edu'')
       = Inr (MessageBody ''Signed up s10@mergington.edu for Math Club'')
   \<and> length (roster (snd (signup_for_activity overfull_state ''Math Club''
                 ''s10@mergington.edu'')) ''Math Club'') = 12"
proof -
  from overfull_math_club obtain a where a: "activities overfull_state ''Math Club'' = Some a"
    "max_participants a = 10" "length (participants a) = 11"
    "''s10@mergington.edu'' \<notin> set (participants a)" by blast
  from a signup_no_capacity_check [where st = overfull_state and n = "''Math Club''"
      and e = "''s10@mergington.edu''"]
  show ?thesis by (simp add: roster_def)
qed

section \<open>Login\<close>

lemma create_admin_token_eq:
  "create_admin_token I now u S = (u, S(u \<mapsto> I (now + timedelta_hours 8)))"
  unfolding create_admin_token_def Let_def ..

lemma login_scan_eq:
  "login_scan I now u ts usr pw st =
     (if \<exists>t \<in> set ts. t ''username'' = usr \<and> t ''password'' = pw then
        (Inr (TokenBody u 8),
         st\<lparr>ADMIN_SESSIONS := (ADMIN_SESSIONS st)(u \<mapsto> I (now + timedelta_hours 8))\<rparr>)
      else (Inl (HTTPException 401 ''Invalid credentials''), st))"
proof (induction ts)
  case Nil
  show ?case by simp
next
  case (Cons t ts)
  show ?case
  proof (cases "t ''username'' = usr \<and> t ''password'' = pw")
    case True
    then have "login_scan I now u (t # ts) usr pw st =
        (Inr (TokenBody u 8),
         st\<lparr>ADMIN_SESSIONS := (ADMIN_SESSIONS st)(u \<mapsto> I (now + timedelta_hours 8))\<rparr>)"
      unfolding login_scan.simps create_admin_token_eq by simp
    with True show ?thesis by auto
  next
    case False
    then have "login_scan I now u (t # ts) usr pw st = login_scan I now u ts usr pw st"
      by auto
    also have "\<dots> =
        (if \<exists>t \<in> set ts. t ''username'' = usr \<and> t ''password'' = pw then
           (Inr (TokenBody u 8),
            st\<lparr>ADMIN_SESSIONS := (ADMIN_SESSIONS st)(u \<mapsto> I (now + timedelta_hours 8))\<rparr>)
         else (Inl (HTTPException 401 ''Invalid credentials''), st))"
      by (rule Cons.IH)
    also have "(\<exists>t \<in> set ts. t ''username'' = usr \<and> t ''password'' = pw)
        \<longleftrightarrow> (\<exists>t' \<in> set (t # ts). t' ''username'' = usr \<and> t' ''password'' = pw)"
      using False by auto
    finally show ?thesis .
  qed
qed

text \<open>
  Claim C5, as the source has it. \<^verbatim>\<open>admin_login\<close> raises 400 when the username or the
  password is absent from the body or is the empty string, and leaves the state alone.
  Otherwise it looks for a loaded teacher entry whose username and password both equal
  the given ones: with no such entry it raises 401 and leaves the state alone; with one
  it stores the new token with the text of the instant eight hours (28800000000
  microseconds) after the clock reading in the session table and returns the token with
  \<^verbatim>\<open>expires_in_hours\<close> 8.
\<close>

theorem admin_login_cases:
  "timedelta_hours 8 = 8 * 60 * 60 * 1000000
   \<and> (body ''username'' = None \<or> body ''username'' = Some []
       \<or> body ''password'' = None \<or> body ''password'' = Some [] \<longrightarrow>
      admin_login I now u C st body =
        (Inl (HTTPException 400 ''username and password required''), st))
   \<and> (\<forall>usr pw. body ''username'' = Some usr \<and> usr \<noteq> []
        \<and> body ''password'' = Some pw \<and> pw \<noteq> [] \<longrightarrow>
       ((\<exists>t \<in> set (loaded_teachers C). t ''username'' = Some usr \<and> t ''password'' = Some pw)
          \<longrightarrow> admin_login I now u C st body =
               (Inr (TokenBody u 8),
                st\<lparr>ADMIN_SESSIONS := (ADMIN_SESSIONS st)(u \<mapsto> I (now + timedelta_hours 8))\<rparr>))
       \<and> (\<not> (\<exists>t \<in> set (loaded_teachers C).
                 t ''username'' = Some usr \<and> t ''password'' = Some pw)
          \<longrightarrow> admin_login I now u C st body =
               (Inl (HTTPException 401 ''Invalid credentials''), st)))"
  by (auto simp: admin_login_def falsy_def login_scan_eq loaded_teachers_def timedelta_hours_def
           simp del: fun_upd_apply)

theorem admin_login_cases_witness:
  "admin_login example_isoformat 0 example_token example_creds initial_state teacher1_body
     = (Inr (TokenBody example_token 8), logged_in_state)
   \<and> admin_login example_isoformat 0 example_token EMPTY_CREDS initial_state teacher1_body
     = (Inl (HTTPException 401 ''Invalid credentials''), initial_state)
   \<and> admin_login example_isoformat 0 example_token example_creds initial_state
         empty_username_body
     = (Inl (HTTPException 400 ''username and password required''), initial_state)"
proof -
  note inst = admin_login_cases [where I = example_isoformat and now = 0
      and u = example_token and st = initial_state]
  have t: "teacher1_body ''username'' = Some ''teacher1''"
          "teacher1_body ''password'' = Some ''pw1''"
    by (simp_all add: teacher1_body_def)
  have l1: "loaded_teachers example_creds
              = [[''username'' \<mapsto> ''teacher1'', ''password'' \<mapsto> ''pw1'']]"
    by (simp add: loaded_teachers_def example_creds_def)
  have l2: "loaded_teachers EMPTY_CREDS = []"
    by (simp add: loaded_teachers_def EMPTY_CREDS_def)
  have c1: "admin_login example_isoformat 0 example_token example_creds initial_state
              teacher1_body = (Inr (TokenBody example_token 8), logged_in_state)"
    using inst [where C = example_creds and body = teacher1_body] t
    by (simp add: l1 logged_in_state_def initial_state_def example_isoformat_def)
  have c2: "admin_login example_isoformat 0 example_token EMPTY_CREDS initial_state
              teacher1_body = (Inl (HTTPException 401 ''Invalid credentials''), initial_state)"
    using inst [where C = EMPTY_CREDS and body = teacher1_body] t
    by (simp add: l2)
  have c3: "admin_login example_isoformat 0 example_token example_creds initial_state
              empty_username_body
            = (Inl (HTTPException 400 ''username and password required''), initial_state)"
    using inst [where C = example_creds and body = empty_username_body]
    by (simp add: empty_username_body_def)
  from c1 c2 c3 show ?thesis by blast
qed


text \<open>
  Claim C5 as worded, with 400 for a missing field only and the scan otherwise, fails:
  a body that has both keys, the username being the empty string, is answered with 400
  and not with the 401 of a scan that finds no match.
\<close>

theorem admin_login_present_but_empty_counterexample:
  "empty_username_body ''username'' \<noteq> None
   \<and> empty_username_body ''password'' \<noteq> None
   \<and> admin_login example_isoformat 0 example_token example_creds initial_state
         empty_username_body
       = (Inl (HTTPException 400 ''username and password required''), initial_state)"
  by (simp add: admin_login_def falsy_def empty_username_body_def)

section \<open>Credential loading\<close>

lemma load_TEACHER_CREDS_recovers:
  "f = Missing \<or> f = Unreadable \<or> (\<exists>s e. f = Readable s \<and> json_load s = Inl e) \<Longrightarrow>
   load_TEACHER_CREDS json_load f = Inr DEFAULT_TEACHER_CREDS"
  by (auto simp: load_TEACHER_CREDS_def try_load_def)

lemma load_TEACHER_CREDS_keeps_parse:
  "json_load s = Inr loaded \<Longrightarrow> load_TEACHER_CREDS json_load (Readable s) = Inr loaded"
  by (simp add: load_TEACHER_CREDS_def try_load_def)

lemma load_TEACHER_CREDS_stat_denied:
  "load_TEACHER_CREDS json_load StatDenied = Inl PermissionError"
  by (simp add: load_TEACHER_CREDS_def)

lemma load_TEACHER_CREDS_examples:
  "load_TEACHER_CREDS example_json_load Missing = Inr DEFAULT_TEACHER_CREDS"
  "load_TEACHER_CREDS example_json_load Unreadable = Inr DEFAULT_TEACHER_CREDS"
  "load_TEACHER_CREDS example_json_load (Readable ''{'') = Inr DEFAULT_TEACHER_CREDS"
  "load_TEACHER_CREDS example_json_load (Readable ''{}'') = Inr (JObject [])"
  by (simp_all add: load_TEACHER_CREDS_def try_load_def example_json_load_def)

text \<open>
  Claim C7. Credential loading is to raise for no state of the credential source: for a
  missing file, an unreadable file and malformed content alike the loader is to yield
  the empty credentials. The source keeps the promise inside its \<^verbatim>\<open>try\<close>: a missing
  file, a file that \<^verbatim>\<open>open\<close> refuses and a text that \<^verbatim>\<open>json.load\<close> rejects all give
  \<^verbatim>\<open>{"teachers": []}\<close> (\<open>load_TEACHER_CREDS_recovers\<close>). It breaks it for a file that
  may not be examined: \<^verbatim>\<open>exists()\<close> stands before the \<^verbatim>\<open>try\<close>, its
  \<^verbatim>\<open>PermissionError\<close> is caught by nothing, and the import raises. And content that
  parses, but not to a dictionary of teachers (here \<^verbatim>\<open>null\<close>), is kept as
  \<^verbatim>\<open>TEACHER_CREDS\<close> in place of the empty credentials.
\<close>

theorem load_TEACHER_CREDS_raises_on_stat_denied:
  "load_TEACHER_CREDS example_json_load StatDenied = Inl PermissionError
   \<and> load_TEACHER_CREDS example_json_load (Readable ''null'') = Inr JNull
   \<and> JNull \<noteq> DEFAULT_TEACHER_CREDS"
  by (simp add: load_TEACHER_CREDS_def try_load_def example_json_load_def
        DEFAULT_TEACHER_CREDS_def)

section \<open>Logout\<close>

text \<open>
  Claim C8, as the source has it. \<^verbatim>\<open>admin_logout\<close> raises 400 exactly when the
  Authorization header is absent or empty, and then leaves the state alone. For any other
  header it returns \<^verbatim>\<open>logged out\<close> and deletes the entry of the token, which is the
  header without its \<^verbatim>\<open>"Bearer "\<close> prefix when it has one and the header itself
  otherwise; a token that is not in the table is no error and the state stays as it is.
  Logging out twice with the same header gives the answer and the state of logging out
  once.
\<close>

theorem admin_logout_cases:
  "(fst (admin_logout st auth) = Inl (HTTPException 400 ''Authorization header required'')
      \<longleftrightarrow> auth = None \<or> auth = Some [])
   \<and> (auth = None \<or> auth = Some [] \<longrightarrow> snd (admin_logout st auth) = st)
   \<and> (\<forall>h. auth = Some h \<and> h \<noteq> [] \<longrightarrow>
         admin_logout st auth =
           (Inr (DetailBody ''logged out''),
            st\<lparr>ADMIN_SESSIONS := (ADMIN_SESSIONS st)(strip_bearer h := None)\<rparr>)
         \<and> (prefix ''Bearer '' h \<longrightarrow> strip_bearer h = drop 7 h)
         \<and> (\<not> prefix ''Bearer '' h \<longrightarrow> strip_bearer h = h)
         \<and> (ADMIN_SESSIONS st (strip_bearer h) = None \<longrightarrow>
               admin_logout st auth = (Inr (DetailBody ''logged out''), st)))
   \<and> admin_logout (snd (admin_logout st auth)) auth = admin_logout st auth"
proof (intro conjI allI impI)
  show "fst (admin_logout st auth) = Inl (HTTPException 400 ''Authorization header required'')
      \<longleftrightarrow> auth = None \<or> auth = Some []"
    by (auto simp: admin_logout_def Let_def split: option.splits)
next
  assume "auth = None \<or> auth = Some []"
  then show "snd (admin_logout st auth) = st" by (auto simp: admin_logout_def)
next
  fix h assume h: "auth = Some h \<and> h \<noteq> []"
  then show "admin_logout st auth =
           (Inr (DetailBody ''logged out''),
            st\<lparr>ADMIN_SESSIONS := (ADMIN_SESSIONS st)(strip_bearer h := None)\<rparr>)"
    by (simp add: admin_logout_def Let_def)
  {
    assume "ADMIN_SESSIONS st (strip_bearer h) = None"
    then have "(ADMIN_SESSIONS st)(strip_bearer h := None) = ADMIN_SESSIONS st"
      by (rule fun_upd_idem)
    with h show "admin_logout st auth = (Inr (DetailBody ''logged out''), st)"
      by (simp add: admin_logout_def Let_def)
  }
next
  fix h assume "prefix ''Bearer '' h"
  then show "strip_bearer h = drop 7 h" by (rule strip_bearer_drop)
next
  fix h assume "\<not> prefix ''Bearer '' h"
  then show "strip_bearer h = h" by (rule strip_bearer_raw)
next
  show "admin_logout (snd (admin_logout st auth)) auth = admin_logout st auth"
    by (simp add: admin_logout_def Let_def split: option.splits)
qed

theorem admin_logout_cases_witness:
  "fst (admin_logout logged_in_state None)
     = Inl (HTTPException 400 ''Authorization header required'')
   \<and> admin_logout logged_in_state (Some (''Bearer '' @ example_token))
     = (Inr (DetailBody ''logged out''), initial_state)
   \<and> admin_logout initial_state (Some (''Bearer '' @ example_token))
     = (Inr (DetailBody ''logged out''), initial_state)
   \<and> admin_logout logged_in_state (Some ''garbage'')
     = (Inr (DetailBody ''logged out''), logged_in_state)"
proof -
  have sb: "strip_bearer (''Bearer '' @ example_token) = example_token"
    by (rule strip_bearer_prefixed)
  have sg: "strip_bearer ''garbage'' = ''garbage''"
    by (simp add: strip_bearer_def)
  have c1: "fst (admin_logout logged_in_state None)
     = Inl (HTTPException 400 ''Authorization header required'')"
    using admin_logout_cases [where st = logged_in_state and auth = None] by simp
  have c2: "admin_logout logged_in_state (Some (''Bearer '' @ example_token))
     = (Inr (DetailBody ''logged out''), initial_state)"
    using admin_logout_cases [where st = logged_in_state
        and auth = "Some (''Bearer '' @ example_token)"] sb
    by (simp add: logged_in_state_def initial_state_def)
  have c3: "admin_logout initial_state (Some (''Bearer '' @ example_token))
     = (Inr (DetailBody ''logged out''), initial_state)"
    using admin_logout_cases [where st = initial_state
        and auth = "Some (''Bearer '' @ example_token)"] sb
    by (simp add: initial_state_def)
  have c4: "admin_logout logged_in_state (Some ''garbage'')
     = (Inr (DetailBody ''logged out''), logged_in_state)"
    using admin_logout_cases [where st = logged_in_state and auth = "Some ''garbage''"] sg
    by (simp add: logged_in_state_def example_token_def)
  from c1 c2 c3 c4 show ?thesis by blast
qed


text \<open>
  Claim C8 as worded, with 400 if and only if no header is present, fails: a header that
  is present and empty is answered with 400.
\<close>

theorem admin_logout_empty_header_counterexample:
  "Some [] \<noteq> (None :: string option)
   \<and> admin_logout logged_in_state (Some [])
       = (Inl (HTTPException 400 ''Authorization header required''), logged_in_state)"
  by (simp add: admin_logout_def)

end
